theory Spec2Isabelle
  imports Complex_Main
begin

section \<open>Numbers, errors and arrays\<close>

text \<open>
  The helpers of \<^verbatim>\<open>lessons/lesson_1/meep_helpers.py\<close> compute with Python floats and numpy
  arrays, that is, in IEEE 754 binary64. Here a finite float is a \<^typ>\<open>real\<close> and the arithmetic
  on finite values is exact: the rounding of a result, its underflow, and the overflow of a
  sum or a product to an infinity are not modelled. So a statement below speaks for the
  code only where no rounding decides the outcome: on a check call that is fixed by its
  verdict and its place in the report, on arrays of zeros, at an input whose result keeps a
  margin far above the rounding error, and where the values are compared as they stand.

  What is modelled is where Python and numpy part. Python's own \<^verbatim>\<open>/\<close> on floats raises
  on a zero divisor and its \<^verbatim>\<open>**\<close> raises when the power is too large for a float; numpy's
  scalar operations return one of the special values of IEEE 754 instead (with a warning
  only), as on a zero divisor and on the square root of a negative number.
\<close>

datatype py_error = ZeroDivisionError | OverflowError | ValueError

datatype npfloat = Fin real | PInf | NInf | NaN

text \<open>Python \<^verbatim>\<open>a / b\<close> on two floats.\<close>

definition py_truediv :: "real \<Rightarrow> real \<Rightarrow> py_error + real" where
  "py_truediv a b = (if b = 0 then Inl ZeroDivisionError else Inr (a / b))"

text \<open>
  Python \<^verbatim>\<open>a ** k\<close> on a float and a small integer. The power is too large for a float
  when it rounds beyond the largest one, which is \<open>2 ^ 1024 - 2 ^ 971\<close>: from
  \<open>2 ^ 1024 - 2 ^ 970\<close> on.
\<close>

definition rounds_to_inf :: "real \<Rightarrow> bool" where
  "rounds_to_inf v = (2 ^ 1024 - 2 ^ 970 \<le> \<bar>v\<bar>)"

definition py_pow :: "real \<Rightarrow> nat \<Rightarrow> py_error + real" where
  "py_pow a k = (if rounds_to_inf (a ^ k) then Inl OverflowError else Inr (a ^ k))"

text \<open>\<^verbatim>\<open>np.sqrt\<close> of a finite scalar.\<close>

definition np_sqrt :: "real \<Rightarrow> npfloat" where
  "np_sqrt v = (if v < 0 then NaN else Fin (sqrt v))"

text \<open>A finite float times a numpy scalar, and a numpy scalar divided by a float.\<close>

fun np_mul :: "real \<Rightarrow> npfloat \<Rightarrow> npfloat" where
  "np_mul a (Fin b) = Fin (a * b)"
| "np_mul a PInf = (if a = 0 then NaN else if 0 < a then PInf else NInf)"
| "np_mul a NInf = (if a = 0 then NaN else if 0 < a then NInf else PInf)"
| "np_mul a NaN = NaN"

definition np_divide :: "real \<Rightarrow> real \<Rightarrow> npfloat" where
  "np_divide a b =
     (if b \<noteq> 0 then Fin (a / b)
      else if a = 0 then NaN
      else if 0 < a then PInf else NInf)"

text \<open>Comparisons of a numpy scalar with a finite float: every comparison with NaN is false.\<close>

fun np_lt :: "npfloat \<Rightarrow> real \<Rightarrow> bool" where
  "np_lt (Fin a) b = (a < b)"
| "np_lt PInf b = False"
| "np_lt NInf b = True"
| "np_lt NaN b = False"

fun np_ge :: "npfloat \<Rightarrow> real \<Rightarrow> bool" where
  "np_ge (Fin a) b = (a \<ge> b)"
| "np_ge PInf b = True"
| "np_ge NInf b = False"
| "np_ge NaN b = False"

text \<open>A keyword argument with a default value: \<open>None\<close> is the call that leaves it out.\<close>

definition default_to :: "'a \<Rightarrow> 'a option \<Rightarrow> 'a" where
  "default_to d v = (case v of None \<Rightarrow> d | Some u \<Rightarrow> u)"

text \<open>
  A two-dimensional \<^verbatim>\<open>ndarray\<close> is the list of its rows (first axis), each row the list of
  its samples along the second axis. numpy arrays are rectangular, which is \<open>rect\<close>.
  A sample is complex; a real field is one whose samples have no imaginary part.
\<close>

type_synonym ndarray = "complex list list"

definition shape0 :: "ndarray \<Rightarrow> nat" where
  "shape0 a = length a"

definition shape1 :: "ndarray \<Rightarrow> nat" where
  "shape1 a = (case a of [] \<Rightarrow> 0 | r # _ \<Rightarrow> length r)"

definition rect :: "ndarray \<Rightarrow> bool" where
  "rect a = (\<forall>r \<in> set a. length r = shape1 a)"

text \<open>\<^verbatim>\<open>mp.Vector3\<close>: the extents of the cell along the three axes.\<close>

record Vector3 =
  cell_x :: real
  cell_y :: real
  cell_z :: real

text \<open>
  An f-string is kept as its pieces: literal text, a float with its format specification,
  and an integer.
\<close>

datatype fpiece = Lit string | Flt npfloat string | IntP nat

section \<open>WaveguideTests\<close>

record CheckResult =
  r_test :: string
  r_measured :: npfloat
  r_expected :: "fpiece list"
  r_passed :: bool
  r_message :: "fpiece list"

record WaveguideTests =
  tolerance :: real
  results :: "CheckResult list"

definition WaveguideTests_init :: "real option \<Rightarrow> WaveguideTests" where
  "WaveguideTests_init tol = \<lparr>tolerance = default_to 0.1 tol, results = []\<rparr>"

definition append_result :: "WaveguideTests \<Rightarrow> CheckResult \<Rightarrow> WaveguideTests" where
  "append_result self r = self\<lparr>results := results self @ [r]\<rparr>"

definition test_single_mode_condition ::
  "WaveguideTests \<Rightarrow> real \<Rightarrow> real \<Rightarrow> real \<Rightarrow> real option \<Rightarrow> py_error + (bool \<times> WaveguideTests)" where
  "test_single_mode_condition self width wavelength n_core n_cladding_kw =
     (let n_cladding = default_to 1.0 n_cladding_kw in
      case py_truediv (pi * width) wavelength of
        Inl e \<Rightarrow> Inl e
      | Inr q \<Rightarrow>
         (case py_pow n_core 2 of
            Inl e \<Rightarrow> Inl e
          | Inr core2 \<Rightarrow>
             (case py_pow n_cladding 2 of
                Inl e \<Rightarrow> Inl e
              | Inr cladding2 \<Rightarrow>
                  let V = np_mul q (np_sqrt (core2 - cladding2));
                      cutoff = pi / 2;
                      passed = np_lt V cutoff;
                      result = \<lparr>r_test = ''Single-Mode Condition'',
                                r_measured = V,
                                r_expected = [Lit ''< '', Flt (Fin cutoff) ''.3f''],
                                r_passed = passed,
                                r_message = [Lit ''V = '', Flt V ''.3f'', Lit '' ('',
                                             Lit (if passed then ''Single-mode PASS'' else ''Multi-mode FAIL''),
                                             Lit '')'']\<rparr>
                  in Inr (passed, append_result self result))))"

definition test_steady_state ::
  "WaveguideTests \<Rightarrow> real \<Rightarrow> real \<Rightarrow> real option \<Rightarrow> py_error + (bool \<times> WaveguideTests)" where
  "test_steady_state self simulation_time frequency min_cycles_kw =
     (let min_cycles = default_to 10 min_cycles_kw;
          cycles = simulation_time * frequency;
          passed = (cycles \<ge> min_cycles);
          result = \<lparr>r_test = ''Steady-State Convergence'',
                    r_measured = Fin cycles,
                    r_expected = [Lit ''>= '', Flt (Fin min_cycles) []],
                    r_passed = passed,
                    r_message = [Flt (Fin cycles) ''.1f'', Lit '' cycles ('',
                                 Lit (if passed then ''PASS'' else ''WARNING: may not converge''),
                                 Lit '')'']\<rparr>
      in Inr (passed, append_result self result))"

definition test_resolution ::
  "WaveguideTests \<Rightarrow> real \<Rightarrow> real \<Rightarrow> real option \<Rightarrow> py_error + (bool \<times> WaveguideTests)" where
  "test_resolution self resolution wavelength min_ppw_kw =
     (let min_ppw = default_to 8 min_ppw_kw;
          ppw = resolution * wavelength;
          passed = (ppw \<ge> min_ppw);
          result = \<lparr>r_test = ''Resolution'',
                    r_measured = Fin ppw,
                    r_expected = [Lit ''>= '', Flt (Fin min_ppw) []],
                    r_passed = passed,
                    r_message = [Flt (Fin ppw) ''.1f'', Lit '' pixels/wavelength ('',
                                 Lit (if passed then ''PASS'' else ''FAIL: too coarse''),
                                 Lit '')'']\<rparr>
      in Inr (passed, append_result self result))"

subsection \<open>Checks on the field array\<close>

text \<open>
  \<^verbatim>\<open>np.linspace(start, stop, num)\<close>: the samples are \<open>i * step + start\<close> with
  \<open>step = (stop - start) / (num - 1)\<close>, the last one overwritten by \<open>stop\<close>; with one sample
  the step is undefined and the sample is \<open>start\<close>. numpy rounds each sample to a float,
  which can put it on the other side of the band edge than the exact value; nothing below
  rests on the side on which a sample falls.
\<close>

definition linspace :: "real \<Rightarrow> real \<Rightarrow> nat \<Rightarrow> real list" where
  "linspace start stop num =
     (let dv = int num - 1;
          delta = stop - start;
          y = map real [0..<num]
      in if 0 < dv
         then (let step = delta / real_of_int dv
               in (map (\<lambda>v. v * step + start) y)[num - 1 := stop])
         else map (\<lambda>v. v * delta + start) y)"

text \<open>\<^verbatim>\<open>np.sum\<close> over every sample of a two-dimensional array of reals.\<close>

definition np_sum :: "real list list \<Rightarrow> real" where
  "np_sum p = sum_list (map sum_list p)"

text \<open>\<^verbatim>\<open>row[mask]\<close>: the samples of the row at the positions where the mask is true.\<close>

definition select :: "bool list \<Rightarrow> 'a list \<Rightarrow> 'a list" where
  "select msk row = map (\<lambda>j. row ! j) (filter (\<lambda>j. msk ! j) [0..<length row])"

definition test_confinement_factor ::
  "WaveguideTests \<Rightarrow> ndarray \<Rightarrow> real \<Rightarrow> Vector3 \<Rightarrow> real option \<Rightarrow> py_error + (bool \<times> WaveguideTests)" where
  "test_confinement_factor self field_data waveguide_width cell_size expected_kw =
     (let expected = default_to 0.8 expected_kw;
          ny = shape1 field_data;
          y_positions = linspace (- cell_y cell_size / 2) (cell_y cell_size / 2) ny;
          power = map (map (\<lambda>z. (cmod z) ^ 2)) field_data;
          total_power = np_sum power;
          mask = map (\<lambda>v. \<bar>v\<bar> < waveguide_width / 2) y_positions;
          waveguide_power = np_sum (map (select mask) power);
          gamma = np_divide waveguide_power total_power;
          passed = np_ge gamma expected;
          result = \<lparr>r_test = ''Confinement Factor'',
                    r_measured = gamma,
                    r_expected = [Lit ''>= '', Flt (Fin expected) []],
                    r_passed = passed,
                    r_message = [Lit ([CHR 0xC3, CHR 0x8E, CHR 0xE2, CHR 0x80, CHR 0x9C] @ '' = ''),
                                 Flt gamma ''.1%'', Lit '' ('',
                                 Lit (if passed then ''PASS'' else ''FAIL''),
                                 Lit '')'']\<rparr>
      in Inr (passed, append_result self result))"

text \<open>\<^verbatim>\<open>np.max\<close> over every sample; an empty array has no maximum.\<close>

definition np_max :: "real list list \<Rightarrow> py_error + real" where
  "np_max p = (case concat p of [] \<Rightarrow> Inl ValueError | v # vs \<Rightarrow> Inr (fold max vs v))"

definition test_field_amplitude ::
  "WaveguideTests \<Rightarrow> ndarray \<Rightarrow> real option \<Rightarrow> real option \<Rightarrow> py_error + (bool \<times> WaveguideTests)" where
  "test_field_amplitude self field_data min_val_kw max_val_kw =
     (let min_val = default_to (1 / 10 ^ 6) min_val_kw;
          max_val = default_to (10 ^ 3) max_val_kw
      in case np_max (map (map cmod) field_data) of
           Inl e \<Rightarrow> Inl e
         | Inr max_field \<Rightarrow>
             let passed = (min_val < max_field \<and> max_field < max_val);
                 result = \<lparr>r_test = ''Field Amplitude'',
                           r_measured = Fin max_field,
                           r_expected = [Flt (Fin min_val) [], Lit '' < |E| < '', Flt (Fin max_val) []],
                           r_passed = passed,
                           r_message = [Lit ''|Ez|_max = '', Flt (Fin max_field) ''.4f'', Lit '' ('',
                                        Lit (if passed then ''PASS'' else ''FAIL''),
                                        Lit '')'']\<rparr>
             in Inr (passed, append_result self result))"

subsection \<open>The report\<close>

text \<open>\<^verbatim>\<open>print_report\<close> only reads the results; the model returns the printed lines.\<close>

definition rule70 :: string where
  "rule70 = replicate 70 (CHR ''='')"

definition print_result :: "nat \<times> CheckResult \<Rightarrow> fpiece list list" where
  "print_result ir =
     (case ir of (i, result) \<Rightarrow>
        let status = (if r_passed result
                      then [CHR 0xC3, CHR 0xA2, CHR 0xC5, CHR 0x93, CHR 0xE2, CHR 0x80, CHR 0x9C]
                      else [CHR 0xC3, CHR 0xA2, CHR 0xC5, CHR 0x93, CHR 0xE2, CHR 0x80, CHR 0x94])
        in [[Lit ([CHR 0x0A] @ status), Lit '' Test '', IntP i, Lit '': '', Lit (r_test result)],
            [Lit ''  Measured: '', Flt (r_measured result) []],
            Lit ''  Expected: '' # r_expected result,
            Lit ''  '' # r_message result])"

definition passed_count :: "WaveguideTests \<Rightarrow> nat" where
  "passed_count self = sum_list (map (\<lambda>r. if r_passed r then 1 else 0) (results self))"

definition total_count :: "WaveguideTests \<Rightarrow> nat" where
  "total_count self = length (results self)"

definition print_report :: "WaveguideTests \<Rightarrow> fpiece list list" where
  "print_report self =
     [[Lit ([CHR 0x0A] @ rule70)], [Lit ''SIMULATION TEST REPORT''], [Lit rule70]]
     @ concat (map print_result (enumerate 1 (results self)))
     @ [[Lit ([CHR 0x0A] @ rule70)],
        [Lit ''SUMMARY: '', IntP (passed_count self), Lit ''/'', IntP (total_count self),
         Lit '' tests passed''],
        (if passed_count self = total_count self
         then [Lit ([CHR 0xC3, CHR 0xB0, CHR 0xC5, CHR 0xB8, CHR 0xC5, CHR 0xBD, CHR 0xE2, CHR 0x80, CHR 0xB0]
                    @ '' ALL TESTS PASSED!'')]
         else [Lit ([CHR 0xC3, CHR 0xA2, CHR 0xC5, CHR 0xA1, CHR 0xC2, CHR 0xA0, CHR 0xC3, CHR 0xAF, CHR 0xC2, CHR 0xB8]
                    @ ''  Some tests failed - review results above'')]),
        [Lit (rule70 @ [CHR 0x0A])]]"

subsection \<open>Sequences of check calls\<close>

datatype check_call =
    ConfinementFactor ndarray real Vector3 "real option"
  | SingleModeCondition real real real "real option"
  | FieldAmplitude ndarray "real option" "real option"
  | SteadyState real real "real option"
  | Resolution real real "real option"

fun invoke :: "WaveguideTests \<Rightarrow> check_call \<Rightarrow> py_error + (bool \<times> WaveguideTests)" where
  "invoke self (ConfinementFactor f w c e) = test_confinement_factor self f w c e"
| "invoke self (SingleModeCondition w l n c) = test_single_mode_condition self w l n c"
| "invoke self (FieldAmplitude f lo hi) = test_field_amplitude self f lo hi"
| "invoke self (SteadyState t f m) = test_steady_state self t f m"
| "invoke self (Resolution r l m) = test_resolution self r l m"

fun check_name :: "check_call \<Rightarrow> string" where
  "check_name (ConfinementFactor f w c e) = ''Confinement Factor''"
| "check_name (SingleModeCondition w l n c) = ''Single-Mode Condition''"
| "check_name (FieldAmplitude f lo hi) = ''Field Amplitude''"
| "check_name (SteadyState t f m) = ''Steady-State Convergence''"
| "check_name (Resolution r l m) = ''Resolution''"

text \<open>
  The calls are made one after the other on the same object; a call that raises ends the
  sequence, as the uncaught exception does.
\<close>

fun run_checks :: "WaveguideTests \<Rightarrow> check_call list \<Rightarrow> py_error + (bool list \<times> WaveguideTests)" where
  "run_checks self [] = Inr ([], self)"
| "run_checks self (c # cs) =
     (case invoke self c of
        Inl e \<Rightarrow> Inl e
      | Inr (p, self') \<Rightarrow>
          (case run_checks self' cs of
             Inl e \<Rightarrow> Inl e
           | Inr (ps, self'') \<Rightarrow> Inr (p # ps, self'')))"

section \<open>Reading the outcome of a call\<close>

text \<open>The verdict of a check call, and the value it records as measured.\<close>

definition verdict :: "py_error + (bool \<times> WaveguideTests) \<Rightarrow> py_error + bool" where
  "verdict res = (case res of Inl e \<Rightarrow> Inl e | Inr (p, s) \<Rightarrow> Inr p)"

definition recorded :: "py_error + (bool \<times> WaveguideTests) \<Rightarrow> npfloat option" where
  "recorded res =
     (case res of Inl e \<Rightarrow> None
      | Inr (p, s) \<Rightarrow> (case rev (results s) of [] \<Rightarrow> None | r # _ \<Rightarrow> Some (r_measured r)))"

section \<open>The quantities as the specification words them\<close>

text \<open>
  These definitions follow the wording of the specification, not the code; the theorems
  below compare them with what the functions above compute.
\<close>

definition spec_V_number :: "real \<Rightarrow> real \<Rightarrow> real \<Rightarrow> real \<Rightarrow> real" where
  "spec_V_number width wavelength n_core n_cladding =
     (pi * width / wavelength) * sqrt (n_core ^ 2 - n_cladding ^ 2)"

definition spec_total_power :: "ndarray \<Rightarrow> real" where
  "spec_total_power a = (\<Sum>i<shape0 a. \<Sum>j<shape1 a. (cmod (a ! i ! j)) ^ 2)"


text \<open>
  What one check call does to the object: the recorded results are kept as they are and one
  more is put at the end, carrying the verdict and the name of the check.
\<close>

definition appended :: "WaveguideTests \<Rightarrow> bool \<Rightarrow> string \<Rightarrow> WaveguideTests \<Rightarrow> bool" where
  "appended self p name s' =
     (results s' = results self @ [last (results s')]
      \<and> r_passed (last (results s')) = p
      \<and> r_test (last (results s')) = name
      \<and> tolerance s' = tolerance self)"

section \<open>Outcomes\<close>

lemma verdict_Inr [simp]: "verdict (Inr (p, s)) = Inr p"
  by (simp add: verdict_def)

lemma verdict_Inl [simp]: "verdict (Inl e) = Inl e"
  by (simp add: verdict_def)

lemma recorded_append [simp]: "recorded (Inr (p, append_result s r)) = Some (r_measured r)"
  by (simp add: recorded_def append_result_def)

section \<open>The single-mode condition\<close>

lemma regression_no_overflow:
  "\<not> rounds_to_inf ((346 / 100) ^ 2)" "\<not> rounds_to_inf (1 ^ 2)"
  by (simp_all add: rounds_to_inf_def power2_eq_square)

lemma regression_difference: "(346 / 100 :: real) ^ 2 - 1 ^ 2 = 109716 / 10000"
  by (simp add: power2_eq_square)

lemma regression_V:
  "spec_V_number 1 (667 / 100) (346 / 100) 1 = pi * (sqrt (109716 / 10000) / (667 / 100))"
  unfolding spec_V_number_def regression_difference by simp

lemma regression_default: "default_to 1.0 (Some (1 :: real)) = 1"
  by (simp add: default_to_def)

lemma regression_quotient: "py_truediv (pi * 1) (667 / 100) = Inr (pi * 1 / (667 / 100))"
  by (simp add: py_truediv_def)

lemma regression_core_square: "py_pow (346 / 100) 2 = Inr ((346 / 100) ^ 2)"
  unfolding py_pow_def using regression_no_overflow(1) by (simp only: if_False)

lemma regression_cladding_square: "py_pow 1 2 = Inr (1 ^ 2)"
  unfolding py_pow_def using regression_no_overflow(2) by (simp only: if_False)

lemma regression_root: "np_sqrt (109716 / 10000) = Fin (sqrt (109716 / 10000))"
  by (simp add: np_sqrt_def)

lemma regression_product:
  "np_mul (pi * 1 / (667 / 100)) (Fin (sqrt (109716 / 10000))) =
     Fin (spec_V_number 1 (667 / 100) (346 / 100) 1)"
  unfolding regression_V by simp

lemma regression_verdict:
  "verdict (test_single_mode_condition (WaveguideTests_init None) 1 (667 / 100) (346 / 100) (Some 1)) =
     Inr (spec_V_number 1 (667 / 100) (346 / 100) 1 < pi / 2)"
  unfolding test_single_mode_condition_def Let_def regression_default
  by (simp only: regression_quotient regression_core_square regression_cladding_square sum.case
        regression_difference regression_root regression_product np_lt.simps verdict_Inr)

lemma regression_recorded:
  "recorded (test_single_mode_condition (WaveguideTests_init None) 1 (667 / 100) (346 / 100) (Some 1)) =
     Some (Fin (spec_V_number 1 (667 / 100) (346 / 100) 1))"
  unfolding test_single_mode_condition_def Let_def regression_default
  by (simp only: regression_quotient regression_core_square regression_cladding_square sum.case
        regression_difference regression_root regression_product np_lt.simps recorded_append
        CheckResult.simps)

lemma sqrt_bound_upper: "sqrt (109716 / 10000) < 667 / 200"
proof -
  have "sqrt (109716 / 10000) < sqrt ((667 / 200) ^ 2)"
    by (subst real_sqrt_less_iff) (simp add: power2_eq_square)
  then show ?thesis by simp
qed

text \<open>
  C6 as stated says the check fails at width 1.0, wavelength 6.67, core index 3.46 and
  cladding index 1.0. It passes there.
\<close>

theorem single_mode_regression_passes:
  "verdict (test_single_mode_condition (WaveguideTests_init None) 1 (667 / 100) (346 / 100) (Some 1)) =
     Inr True"
proof -
  have "spec_V_number 1 (667 / 100) (346 / 100) 1 < pi / 2"
    unfolding regression_V using sqrt_bound_upper by simp
  then show ?thesis unfolding regression_verdict by simp
qed

lemma sqrt_bound_lower: "331233 / 100000 < sqrt (109716 / 10000)"
proof -
  have "sqrt ((331233 / 100000) ^ 2) < sqrt (109716 / 10000)"
    by (subst real_sqrt_less_iff) (simp add: power2_eq_square)
  then show ?thesis by simp
qed

lemma sqrt_bound_tight: "sqrt (109716 / 10000) < 33124 / 10000"
proof -
  have "sqrt (109716 / 10000) < sqrt ((33124 / 10000) ^ 2)"
    by (subst real_sqrt_less_iff) (simp add: power2_eq_square)
  then show ?thesis by simp
qed

lemma cos_taylor_bound:
  "\<bar>cos x - (\<Sum>m<n. cos_coeff m * x ^ m)\<bar> \<le> \<bar>x\<bar> ^ n / fact n"
proof -
  from Maclaurin_cos_expansion [of x n] obtain t where
    c: "cos x = (\<Sum>m<n. cos_coeff m * x ^ m) + (cos (t + 1 / 2 * real n * pi) / fact n) * x ^ n"
    by blast
  have "\<bar>cos x - (\<Sum>m<n. cos_coeff m * x ^ m)\<bar> = \<bar>cos (t + 1 / 2 * real n * pi)\<bar> * \<bar>x\<bar> ^ n / fact n"
    unfolding c by (simp add: abs_mult power_abs)
  also have "\<dots> \<le> 1 * \<bar>x\<bar> ^ n / fact n"
    by (intro divide_right_mono mult_right_mono) simp_all
  finally show ?thesis by simp
qed

lemma cos_partial_sum:
  "(\<Sum>m<10. cos_coeff m * x ^ m) =
     1 - x ^ 2 / 2 + x ^ 4 / 24 - x ^ 6 / 720 + x ^ 8 / 40320"
proof -
  have s: "{..<10 :: nat} = {0, 1, 2, 3, 4, 5, 6, 7, 8, 9}" by auto
  have c: "cos_coeff 0 = 1" "cos_coeff 1 = 0" "cos_coeff 2 = - 1 / 2" "cos_coeff 3 = 0"
    "cos_coeff 4 = 1 / 24" "cos_coeff 5 = 0" "cos_coeff 6 = - 1 / 720" "cos_coeff 7 = 0"
    "cos_coeff 8 = 1 / 40320" "cos_coeff 9 = 0" "cos_coeff (Suc 0) = 0"
    by (simp_all add: cos_coeff_def fact_numeral)
  show ?thesis unfolding s by (simp add: c)
qed

lemma cos_157_pos: "0 < cos (157 / 100 :: real)"
proof -
  have b: "\<bar>cos (157 / 100) - (\<Sum>m<10. cos_coeff m * (157 / 100) ^ m)\<bar> \<le> \<bar>157 / 100\<bar> ^ 10 / fact 10"
    by (rule cos_taylor_bound)
  have e: "\<bar>157 / 100 :: real\<bar> ^ 10 / fact 10 < 1 / 10000"
    by (simp add: fact_numeral power_divide)
  have t: "(1 / 10000 :: real) < 1 - (157 / 100) ^ 2 / 2 + (157 / 100) ^ 4 / 24 - (157 / 100) ^ 6 / 720
            + (157 / 100) ^ 8 / 40320"
    by (simp add: power_divide)
  show ?thesis using b e t unfolding cos_partial_sum by linarith
qed

lemma cos_1571_neg: "cos (1571 / 1000 :: real) < 0"
proof -
  have b: "\<bar>cos (1571 / 1000) - (\<Sum>m<10. cos_coeff m * (1571 / 1000) ^ m)\<bar> \<le> \<bar>1571 / 1000\<bar> ^ 10 / fact 10"
    by (rule cos_taylor_bound)
  have e: "\<bar>1571 / 1000 :: real\<bar> ^ 10 / fact 10 < 1 / 10000"
    by (simp add: fact_numeral power_divide)
  have t: "1 - (1571 / 1000) ^ 2 / 2 + (1571 / 1000) ^ 4 / 24 - (1571 / 1000) ^ 6 / 720
            + (1571 / 1000) ^ 8 / 40320 < - (1 / 10000 :: real)"
    by (simp add: power_divide)
  show ?thesis using b e t unfolding cos_partial_sum by linarith
qed

lemma pi_lower: "314 / 100 < pi"
proof -
  have "157 / 100 < pi / 2"
  proof (rule ccontr)
    assume "\<not> 157 / 100 < pi / 2"
    then have "pi / 2 \<le> 157 / 100" by simp
    moreover have "(157 / 100 :: real) \<le> pi" using pi_ge_two by simp
    ultimately have "cos (157 / 100) \<le> cos (pi / 2)"
      by (intro cos_monotone_0_pi_le) simp_all
    with cos_157_pos show False by simp
  qed
  then show ?thesis by simp
qed

lemma pi_upper: "pi < 3142 / 1000"
proof -
  have "pi / 2 < 1571 / 1000"
  proof (rule ccontr)
    assume "\<not> pi / 2 < 1571 / 1000"
    then have "1571 / 1000 \<le> pi / 2" by simp
    then have "0 \<le> cos (1571 / 1000 :: real)"
      by (intro cos_ge_zero) simp_all
    with cos_1571_neg show False by simp
  qed
  then show ?thesis by simp
qed

text \<open>
  C6, as the code has it. At width 1.0, wavelength 6.67, core index 3.46 and cladding index
  1.0 the check records \<open>V = (pi / 6.67) * sqrt (3.46\<^sup>2 - 1)\<close>, which lies between
  \<open>0.4966 * pi\<close> and \<open>0.4967 * pi\<close>, that is between 1.559 and 1.561: it is below the cutoff
  \<open>pi / 2\<close>, which is above 1.57, and the check returns True (single mode).
\<close>

theorem single_mode_regression_value:
  "verdict (test_single_mode_condition (WaveguideTests_init None) 1 (667 / 100) (346 / 100) (Some 1)) =
     Inr True
   \<and> recorded (test_single_mode_condition (WaveguideTests_init None) 1 (667 / 100) (346 / 100) (Some 1)) =
     Some (Fin (spec_V_number 1 (667 / 100) (346 / 100) 1))
   \<and> spec_V_number 1 (667 / 100) (346 / 100) 1 = pi * (sqrt (109716 / 10000) / (667 / 100))
   \<and> (4966 / 10000) * pi < spec_V_number 1 (667 / 100) (346 / 100) 1
   \<and> spec_V_number 1 (667 / 100) (346 / 100) 1 < (4967 / 10000) * pi
   \<and> 1559 / 1000 < spec_V_number 1 (667 / 100) (346 / 100) 1
   \<and> spec_V_number 1 (667 / 100) (346 / 100) 1 < 1561 / 1000
   \<and> 157 / 100 < pi / 2
   \<and> spec_V_number 1 (667 / 100) (346 / 100) 1 < pi / 2"
proof -
  have v: "spec_V_number 1 (667 / 100) (346 / 100) 1 = pi * (sqrt (109716 / 10000) / (667 / 100))"
    by (rule regression_V)
  have up: "spec_V_number 1 (667 / 100) (346 / 100) 1 < pi / 2"
    unfolding v using sqrt_bound_upper by simp
  have lo: "(4966 / 10000) * pi < spec_V_number 1 (667 / 100) (346 / 100) 1"
    unfolding v using sqrt_bound_lower by simp
  have ti: "spec_V_number 1 (667 / 100) (346 / 100) 1 < (4967 / 10000) * pi"
    unfolding v using sqrt_bound_tight by simp
  have "verdict (test_single_mode_condition (WaveguideTests_init None) 1 (667 / 100) (346 / 100) (Some 1)) =
     Inr True"
    unfolding regression_verdict using up by simp
  moreover note regression_recorded
  moreover have "1559 / 1000 < spec_V_number 1 (667 / 100) (346 / 100) 1"
    using lo pi_lower by simp
  moreover have "spec_V_number 1 (667 / 100) (346 / 100) 1 < 1561 / 1000"
    using ti pi_upper by simp
  moreover have "157 / 100 < pi / 2" using pi_lower by simp
  ultimately show ?thesis using v up lo ti by simp
qed

text \<open>
  The two ways in which the check raises instead of returning: a wavelength of zero, and an
  index whose square is too large for a float.
\<close>

lemma zero_wavelength_raises:
  "verdict (test_single_mode_condition self width 0 n_core n_cladding_kw) = Inl ZeroDivisionError"
  by (simp add: test_single_mode_condition_def py_truediv_def Let_def)

lemma square_overflow_raises:
  "verdict (test_single_mode_condition self 1 (667 / 100) (2 ^ 700) (Some 1)) = Inl OverflowError"
  by (simp add: test_single_mode_condition_def py_truediv_def py_pow_def rounds_to_inf_def
      default_to_def Let_def)

section \<open>The report of a sequence of checks\<close>

lemma steady_appends:
  "test_steady_state self t f m = Inr (p, s') \<Longrightarrow> appended self p ''Steady-State Convergence'' s'"
  by (auto simp: test_steady_state_def Let_def append_result_def appended_def)

lemma resolution_appends:
  "test_resolution self t f m = Inr (p, s') \<Longrightarrow> appended self p ''Resolution'' s'"
  by (auto simp: test_resolution_def Let_def append_result_def appended_def)

lemma single_mode_appends:
  "test_single_mode_condition self w l n k = Inr (p, s') \<Longrightarrow> appended self p ''Single-Mode Condition'' s'"
  by (auto simp: test_single_mode_condition_def Let_def append_result_def appended_def split: sum.splits)

lemma amplitude_appends:
  "test_field_amplitude self a lo hi = Inr (p, s') \<Longrightarrow> appended self p ''Field Amplitude'' s'"
  by (auto simp: test_field_amplitude_def Let_def append_result_def appended_def split: sum.splits)

lemma confinement_appends:
  "test_confinement_factor self a w c e = Inr (p, s') \<Longrightarrow> appended self p ''Confinement Factor'' s'"
  unfolding test_confinement_factor_def Let_def append_result_def appended_def
  by auto

lemma invoke_appends:
  assumes "invoke self c = Inr (p, s')"
  shows "appended self p (check_name c) s'"
  using assms
  by (cases c)
     (simp_all add: confinement_appends single_mode_appends amplitude_appends
        steady_appends resolution_appends)

lemma run_checks_appends:
  "run_checks self cs = Inr (ps, self') \<Longrightarrow>
     \<exists>new. results self' = results self @ new \<and> tolerance self' = tolerance self
       \<and> map r_passed new = ps \<and> map r_test new = map check_name cs"
proof (induction cs arbitrary: self ps)
  case Nil
  then show ?case by simp
next
  case (Cons c cs)
  from Cons.prems obtain p s1 qs where
    i: "invoke self c = Inr (p, s1)" and r: "run_checks s1 cs = Inr (qs, self')" and ps: "ps = p # qs"
    by (auto split: sum.splits)
  from invoke_appends [OF i] have a: "appended self p (check_name c) s1" .
  from Cons.IH [OF r] obtain new where
    n: "results self' = results s1 @ new" "tolerance self' = tolerance s1"
       "map r_passed new = qs" "map r_test new = map check_name cs"
    by blast
  have "results self' = results self @ (last (results s1) # new)"
    using a n(1) by (simp add: appended_def)
  moreover have "tolerance self' = tolerance self"
    using a n(2) by (simp add: appended_def)
  moreover have "map r_passed (last (results s1) # new) = ps"
    using a n(3) ps by (simp add: appended_def)
  moreover have "map r_test (last (results s1) # new) = map check_name (c # cs)"
    using a n(4) by (simp add: appended_def)
  ultimately show ?case by blast
qed

lemma passed_count_filter: "passed_count self = length (filter r_passed (results self))"
proof -
  have "sum_list (map (\<lambda>r. if r_passed r then 1 else 0) rs) = length (filter r_passed rs)" for rs
    by (induction rs) simp_all
  then show ?thesis by (simp add: passed_count_def)
qed

lemma summary_printed:
  "[Lit ''SUMMARY: '', IntP (passed_count self), Lit ''/'', IntP (total_count self),
    Lit '' tests passed''] \<in> set (print_report self)"
  by (simp add: print_report_def)

text \<open>
  C8. Whatever the object held before, a sequence of check calls that all return leaves the
  earlier results in place and adds one result per call, in the order of the calls, each
  with the verdict its call returned and the name of its check; the summary line of
  \<open>print_report\<close> gives the number of passed results over the number of results. On a new
  object the results are exactly those of the calls, and the passed count is the number of
  True verdicts.
\<close>

theorem report_invariant:
  assumes "run_checks self calls = Inr (verdicts, self')"
  shows "length (results self') = length (results self) + length calls
       \<and> take (length (results self)) (results self') = results self
       \<and> map r_passed (drop (length (results self)) (results self')) = verdicts
       \<and> map r_test (drop (length (results self)) (results self')) = map check_name calls
       \<and> [Lit ''SUMMARY: '', IntP (length (filter r_passed (results self'))), Lit ''/'',
           IntP (length (results self')), Lit '' tests passed''] \<in> set (print_report self')
       \<and> (results self = [] \<longrightarrow>
            length (results self') = length calls
          \<and> map r_passed (results self') = verdicts
          \<and> length (filter r_passed (results self')) = length (filter (\<lambda>v. v) verdicts))"
proof -
  from run_checks_appends [OF assms] obtain new where
    n: "results self' = results self @ new" "map r_passed new = verdicts"
       "map r_test new = map check_name calls"
    by blast
  from n(3) have len: "length new = length calls"
    by (metis length_map)
  have f: "length (filter r_passed new) = length (filter (\<lambda>v. v) (map r_passed new))"
    by (simp add: filter_map comp_def)
  have s: "[Lit ''SUMMARY: '', IntP (length (filter r_passed (results self'))), Lit ''/'',
           IntP (length (results self')), Lit '' tests passed''] \<in> set (print_report self')"
    using summary_printed [of self'] by (simp add: passed_count_filter total_count_def)
  show ?thesis
    using n len f s by simp
qed

theorem report_invariant_witness:
  "run_checks (WaveguideTests_init None)
      [SteadyState 200 (15 / 100) None, SteadyState 50 (15 / 100) None, Resolution 10 2 None] =
     Inr ([True, False, True],
          snd (projr (run_checks (WaveguideTests_init None)
            [SteadyState 200 (15 / 100) None, SteadyState 50 (15 / 100) None, Resolution 10 2 None])))
   \<and> results (WaveguideTests_init None) = []
   \<and> length (results (snd (projr (run_checks (WaveguideTests_init None)
            [SteadyState 200 (15 / 100) None, SteadyState 50 (15 / 100) None, Resolution 10 2 None])))) = 3
   \<and> map r_passed (results (snd (projr (run_checks (WaveguideTests_init None)
            [SteadyState 200 (15 / 100) None, SteadyState 50 (15 / 100) None, Resolution 10 2 None])))) =
       [True, False, True]
   \<and> length (filter r_passed (results (snd (projr (run_checks (WaveguideTests_init None)
            [SteadyState 200 (15 / 100) None, SteadyState 50 (15 / 100) None, Resolution 10 2 None]))))) = 2"
proof -
  have r: "run_checks (WaveguideTests_init None)
      [SteadyState 200 (15 / 100) None, SteadyState 50 (15 / 100) None, Resolution 10 2 None] =
     Inr ([True, False, True],
          snd (projr (run_checks (WaveguideTests_init None)
            [SteadyState 200 (15 / 100) None, SteadyState 50 (15 / 100) None, Resolution 10 2 None])))"
    by (simp add: test_steady_state_def test_resolution_def default_to_def Let_def)
  have e: "results (WaveguideTests_init None) = []"
    by (simp add: WaveguideTests_init_def)
  show ?thesis
    using report_invariant [OF r] r e by simp
qed

section \<open>The field amplitude\<close>













section \<open>The confinement factor\<close>

lemma linspace_length [simp]: "length (linspace a b n) = n"
  by (simp add: linspace_def Let_def)

lemma rect_row: "rect a \<Longrightarrow> i < length a \<Longrightarrow> length (a ! i) = shape1 a"
  by (simp add: rect_def)

text \<open>A field without power is a field of zeros, and every sum taken over it is zero.\<close>

lemma zero_power_samples:
  assumes "rect a" and "spec_total_power a = 0"
  shows "\<forall>r \<in> set a. \<forall>z \<in> set r. z = 0"
proof (intro ballI)
  fix r z assume r: "r \<in> set a" and z: "z \<in> set r"
  from r obtain i where i: "i < length a" "r = a ! i" by (metis in_set_conv_nth)
  from z obtain j where j: "j < length r" "z = r ! j" by (metis in_set_conv_nth)
  have l: "j < shape1 a" using j(1) i rect_row [OF assms(1)] by simp
  have "(\<Sum>i<shape0 a. \<Sum>j<shape1 a. (cmod (a ! i ! j)) ^ 2) = 0"
    using assms(2) by (simp add: spec_total_power_def)
  then have "(\<Sum>j<shape1 a. (cmod (a ! i ! j)) ^ 2) = 0"
    using i(1) by (subst (asm) sum_nonneg_eq_0_iff) (simp_all add: sum_nonneg shape0_def)
  then have "(cmod (a ! i ! j)) ^ 2 = 0"
    using l by (subst (asm) sum_nonneg_eq_0_iff) simp_all
  then show "z = 0" using i(2) j(2) by simp
qed

lemma sum_list_zeros: "\<forall>v \<in> set r. v = (0 :: real) \<Longrightarrow> sum_list r = 0"
  by (induction r) simp_all

lemma np_sum_zeros:
  assumes "\<forall>r \<in> set p. \<forall>v \<in> set r. v = 0"
  shows "np_sum p = 0"
  unfolding np_sum_def using assms by (intro sum_list_zeros) (auto simp: sum_list_zeros)

lemma select_subset: "set (select m row) \<subseteq> set row"
  by (auto simp: select_def)

lemma zero_power_outcome:
  assumes "rect a" and "spec_total_power a = 0"
  shows "verdict (test_confinement_factor self a width cs kw) = Inr False"
    and "recorded (test_confinement_factor self a width cs kw) = Some NaN"
proof -
  let ?power = "map (map (\<lambda>z. (cmod z) ^ 2)) a"
  have z: "\<forall>r \<in> set ?power. \<forall>v \<in> set r. v = 0"
    using zero_power_samples [OF assms] by auto
  have t: "np_sum ?power = 0" by (rule np_sum_zeros [OF z])
  have "\<forall>r \<in> set (map (select m) ?power). \<forall>v \<in> set r. v = 0" for m
    using z select_subset by fastforce
  then have b: "np_sum (map (select m) ?power) = 0" for m
    by (rule np_sum_zeros)
  show "verdict (test_confinement_factor self a width cs kw) = Inr False"
    unfolding test_confinement_factor_def Let_def t b by (simp add: np_divide_def)
  show "recorded (test_confinement_factor self a width cs kw) = Some NaN"
    unfolding test_confinement_factor_def Let_def t b by (simp add: np_divide_def)
qed

text \<open>
  C9, as the code has it. When the total \<open>|field|\<^sup>2\<close> is exactly zero the division is not
  guarded, and it does not raise either: numpy's scalar division gives NaN, the comparison
  of NaN with the threshold is false, and the check records NaN and returns False, whatever
  the threshold.
\<close>

theorem zero_power_confinement:
  assumes "rect a" and "spec_total_power a = 0"
  shows "verdict (test_confinement_factor self a width cs expected_kw) = Inr False
       \<and> recorded (test_confinement_factor self a width cs expected_kw) = Some NaN"
  using zero_power_outcome [OF assms] by simp

lemma zeros_rect: "rect [[0, 0], [0, 0]]"
  by (simp add: rect_def shape1_def)

lemma zeros_total: "spec_total_power [[0, 0], [0, 0]] = 0"
  by (simp add: spec_total_power_def shape0_def shape1_def lessThan_Suc eval_nat_numeral)

theorem zero_power_confinement_witness:
  "rect [[0, 0], [0, 0]] \<and> spec_total_power [[0, 0], [0, 0]] = 0
   \<and> verdict (test_confinement_factor (WaveguideTests_init None) [[0, 0], [0, 0]] 1
        \<lparr>cell_x = 16, cell_y = 8, cell_z = 0\<rparr> (Some (- 1))) = Inr False
   \<and> recorded (test_confinement_factor (WaveguideTests_init None) [[0, 0], [0, 0]] 1
        \<lparr>cell_x = 16, cell_y = 8, cell_z = 0\<rparr> (Some (- 1))) = Some NaN"
  using zero_power_confinement [OF zeros_rect zeros_total, of "WaveguideTests_init None" 1
          "\<lparr>cell_x = 16, cell_y = 8, cell_z = 0\<rparr>" "Some (- 1)"]
        zeros_rect zeros_total
  by simp

text \<open>
  C9 as stated says that the check returns no boolean on a field of zero total power. On the
  two by two array of zeros it returns False.
\<close>

theorem zero_power_returns_False:
  "verdict (test_confinement_factor (WaveguideTests_init None) [[0, 0], [0, 0]] 1
        \<lparr>cell_x = 16, cell_y = 8, cell_z = 0\<rparr> None) = Inr False"
  by (rule zero_power_outcome (1) [OF zeros_rect zeros_total])

end
